theory Spec2Isabelle
  imports Main "HOL-Library.Sublist"
begin

section \<open>The Go library functions the emitter calls\<close>

subsection \<open>Operator tokens (go/token)\<close>

text \<open>
  The operator and delimiter tokens of \<^verbatim>\<open>go/token\<close> that can stand in the
  \<^verbatim>\<open>Op\<close> and \<^verbatim>\<open>Tok\<close> fields the emitter reads, with the text
  \<^verbatim>\<open>Token.String()\<close> returns for each.
\<close>

datatype token =
    ADD | SUB | MUL | QUO | REM
  | AND | OR | XOR | SHL | SHR | AND_NOT
  | ADD_ASSIGN | SUB_ASSIGN | MUL_ASSIGN | QUO_ASSIGN | REM_ASSIGN
  | AND_ASSIGN | OR_ASSIGN | XOR_ASSIGN | SHL_ASSIGN | SHR_ASSIGN | AND_NOT_ASSIGN
  | LAND | LOR | ARROW | INC | DEC
  | EQL | LSS | GTR | ASSIGN | NOT
  | NEQ | LEQ | GEQ | DEFINE | TILDE

fun String :: "token \<Rightarrow> string" where
  "String ADD = ''+''"
| "String SUB = ''-''"
| "String MUL = ''*''"
| "String QUO = ''/''"
| "String REM = ''%''"
| "String AND = ''&''"
| "String OR = ''|''"
| "String XOR = ''^''"
| "String SHL = ''<<''"
| "String SHR = ''>>''"
| "String AND_NOT = ''&^''"
| "String ADD_ASSIGN = ''+=''"
| "String SUB_ASSIGN = ''-=''"
| "String MUL_ASSIGN = ''*=''"
| "String QUO_ASSIGN = ''/=''"
| "String REM_ASSIGN = ''%=''"
| "String AND_ASSIGN = ''&=''"
| "String OR_ASSIGN = ''|=''"
| "String XOR_ASSIGN = ''^=''"
| "String SHL_ASSIGN = ''<<=''"
| "String SHR_ASSIGN = ''>>=''"
| "String AND_NOT_ASSIGN = ''&^=''"
| "String LAND = ''&&''"
| "String LOR = ''||''"
| "String ARROW = ''<-''"
| "String INC = ''++''"
| "String DEC = ''--''"
| "String EQL = ''==''"
| "String LSS = ''<''"
| "String GTR = ''>''"
| "String ASSIGN = ''=''"
| "String NOT = ''!''"
| "String NEQ = ''!=''"
| "String LEQ = ''<=''"
| "String GEQ = ''>=''"
| "String DEFINE = '':=''"
| "String TILDE = ''~''"

subsection \<open>strings.Join, strings.TrimRight\<close>

fun Join :: "string list \<Rightarrow> string \<Rightarrow> string" where
  "Join [] sep = []"
| "Join [x] sep = x"
| "Join (x # y # ys) sep = x @ sep @ Join (y # ys) sep"

text \<open>
  \<^verbatim>\<open>strings.TrimRight(s, cutset)\<close> removes every trailing character of \<open>s\<close> that
  occurs in \<open>cutset\<close>, not only the last one.
\<close>

definition TrimRight :: "string \<Rightarrow> string \<Rightarrow> string" where
  "TrimRight s cutset = rev (dropWhile (\<lambda>c. c \<in> set cutset) (rev s))"

subsection \<open>fmt.Fprintf\<close>

text \<open>
  The text \<^verbatim>\<open>fmt.Fprintf(w, f, l...)\<close> writes, for string operands. Every
  constant format of the emitter uses the verb \<^verbatim>\<open>%s\<close> only, with as many operands
  as verbs; the formats that are not constants are an identifier's name and a token's
  text, passed with no operand. The cases are those of \<^verbatim>\<open>doPrintf\<close>:
  text up to the next \<^verbatim>\<open>%\<close> is copied; a \<^verbatim>\<open>%\<close> that ends the format
  writes \<^verbatim>\<open>%!(NOVERB)\<close>; \<^verbatim>\<open>%%\<close> writes a percent sign; a verb with no
  operand left writes \<^verbatim>\<open>%!v(MISSING)\<close> for the verb \<open>v\<close>; \<^verbatim>\<open>%s\<close> and
  \<^verbatim>\<open>%v\<close> write the operand; any other verb on a string operand is reported as
  \<^verbatim>\<open>%!v(string=...)\<close>; operands left over at the end are reported as
  \<^verbatim>\<open>%!(EXTRA string=...)\<close>. Flags, widths, precisions, argument indexes and the
  verbs \<^verbatim>\<open>%q\<close>, \<^verbatim>\<open>%x\<close>, \<^verbatim>\<open>%X\<close> are not modelled: no format of the
  emitter has them, and a parsed identifier has no \<^verbatim>\<open>%\<close> in its name.
\<close>

fun Sprintf :: "string \<Rightarrow> string list \<Rightarrow> string" where
  "Sprintf [] l =
     (if l = [] then []
      else ''%!(EXTRA '' @ Join (map (\<lambda>a. ''string='' @ a) l) '', '' @ '')'')"
| "Sprintf (c # f) l =
     (if c \<noteq> CHR ''%'' then c # Sprintf f l
      else (case f of
          [] \<Rightarrow> ''%!(NOVERB)''
        | v # f' \<Rightarrow>
            if v = CHR ''%'' then CHR ''%'' # Sprintf f' l
            else (case l of
                [] \<Rightarrow> ''%!'' @ [v] @ ''(MISSING)'' @ Sprintf f' []
              | a # l' \<Rightarrow>
                  (if v = CHR ''s'' \<or> v = CHR ''v'' then a
                   else ''%!'' @ [v] @ ''(string='' @ a @ '')'') @ Sprintf f' l')))"

section \<open>The formatting buffer\<close>

text \<open>
  \<^verbatim>\<open>type Printer struct { bytes.Buffer; indent int }\<close>. The depth starts at 0,
  \<^verbatim>\<open>Indent\<close> adds one and \<^verbatim>\<open>Unindent\<close> subtracts one only above 0, so it is
  never negative; it is a \<open>nat\<close>.
\<close>

record Printer =
  buf :: string
  indent :: nat

definition NewPrinter :: Printer where
  "NewPrinter = \<lparr>buf = [], indent = 0\<rparr>"

definition Reset :: "Printer \<Rightarrow> Printer" where
  "Reset p = p\<lparr>buf := []\<rparr>"

definition P :: "Printer \<Rightarrow> string \<Rightarrow> string list \<Rightarrow> Printer" where
  "P p f l = p\<lparr>buf := buf p @ Sprintf f l\<rparr>"

definition Pi :: "Printer \<Rightarrow> string \<Rightarrow> string list \<Rightarrow> Printer" where
  "Pi p f l = p\<lparr>buf := buf p @ concat (replicate (indent p) ''    '') @ Sprintf f l\<rparr>"

definition Pln :: "Printer \<Rightarrow> string \<Rightarrow> string list \<Rightarrow> Printer" where
  "Pln p f l = (let p' = Pi p f l in p'\<lparr>buf := buf p' @ ''\<newline>''\<rparr>)"

definition Indent :: "Printer \<Rightarrow> Printer" where
  "Indent p = p\<lparr>indent := indent p + 1\<rparr>"

definition Unindent :: "Printer \<Rightarrow> Printer" where
  "Unindent p = (if indent p > 0 then p\<lparr>indent := indent p - 1\<rparr> else p)"

section \<open>The syntax tree (go/ast)\<close>

text \<open>
  The node kinds of \<^verbatim>\<open>go/ast\<close> the emitter reads, with the fields it reads. An
  identifier is its name. \<open>NilExpr\<close> is the nil interface value (an absent type, length
  or condition), which no case of a type switch matches; \<open>ParenExpr\<close>, \<open>ArrayType\<close>
  and \<open>StructType\<close> are node kinds \<^verbatim>\<open>VisitExpr\<close> has no case for, and \<open>OtherExpr\<close>
  stands for every remaining kind of expression node (composite literals, slices,
  function literals, ...).
\<close>

datatype Expr =
    BasicLit string
  | Ident string
  | SelectorExpr Expr string
  | BinaryExpr Expr token Expr
  | UnaryExpr token Expr
  | StarExpr Expr
  | IndexExpr Expr Expr
  | CallExpr Expr "Expr list"
  | ParenExpr Expr
  | ArrayType Expr Expr
  | StructType "Field list"
  | OtherExpr
  | NilExpr
and Field = Field "string list" Expr

section \<open>The expression emitter\<close>

function (sequential) expr :: "Expr \<Rightarrow> string"
and VisitBinExpr :: "Printer \<Rightarrow> Expr \<Rightarrow> token \<Rightarrow> Expr \<Rightarrow> Printer"
and VisitExpr :: "Printer \<Rightarrow> Expr \<Rightarrow> Printer" where
  "expr n = buf (VisitExpr NewPrinter n)"
| "VisitBinExpr p x op y = VisitExpr (P (VisitExpr p x) (String op) []) y"
| "VisitExpr p (BasicLit v) = P p ''%s'' [v]"
| "VisitExpr p (Ident name) = P p name []"
| "VisitExpr p (SelectorExpr x sel) = P (VisitExpr p x) ''.%s'' [sel]"
| "VisitExpr p (BinaryExpr x op y) = P (VisitBinExpr (P p ''('' []) x op y) '')'' []"
| "VisitExpr p (UnaryExpr op x) = VisitExpr (P p (String op) []) x"
| "VisitExpr p (StarExpr x) = VisitExpr (P p ''*'' []) x"
| "VisitExpr p (IndexExpr x i) = P (VisitExpr (P (VisitExpr p x) ''['' []) i) '']'' []"
| "VisitExpr p (CallExpr f args) =
     P (VisitExpr p f) ''(%s)'' [Join (map expr args) '', '']"
| "VisitExpr p _ = p"
  by pat_completeness auto
termination
  by (relation "measure (\<lambda>c. case c of
          Inl n \<Rightarrow> 2 * size n + 1
        | Inr (Inl (p, x, op, y)) \<Rightarrow> 2 * (size x + size y) + 1
        | Inr (Inr (p, n)) \<Rightarrow> 2 * size n)")
     (auto simp: less_Suc_eq_le dest: size_list_estimation' [where f = size and y = "size x" for x, OF _ order_refl])

section \<open>Statements and declarations\<close>

text \<open>
  \<open>Spec\<close>, \<open>Decl\<close> and \<open>Stmt\<close> are the node families of \<^verbatim>\<open>go/ast\<close>. A
  \<^verbatim>\<open>*ast.BlockStmt\<close> field is the list of its statements; the body of a function is
  optional, since a declaration without a body has a nil \<^verbatim>\<open>Body\<close>. A nil
  \<^verbatim>\<open>*ast.FieldList\<close> and an empty one are both the empty list: the emitter only
  asks them for \<^verbatim>\<open>NumFields()\<close>, which is 0 for both. \<open>OtherStmt\<close> stands for
  the statement kinds the type switch of \<^verbatim>\<open>VisitStmt\<close> has no case for (switch,
  range, go, defer, ...), \<open>NilStmt\<close> for the nil interface value (an absent init, post
  or else part) and \<open>BadDecl\<close> for the third kind of declaration node. The fields the
  emitter never reads (positions, comments, the init statement of an if, the values of a
  value spec, the receiver of a function) are left out.
\<close>

datatype Spec =
    ValueSpec "string list" Expr
  | ImportSpec string
  | TypeSpec string Expr

datatype Stmt =
    ExprStmt Expr
  | AssignStmt "Expr list" token "Expr list"
  | DeclStmt Decl
  | ReturnStmt "Expr list"
  | IncDecStmt Expr token
  | IfStmt Expr "Stmt list" Stmt
  | ForStmt Stmt Expr Stmt "Stmt list"
  | BlockStmt "Stmt list"
  | OtherStmt
  | NilStmt
and Decl =
    FuncDecl string "Field list" "Field list" "Stmt list option"
  | GenDecl "Spec list"
  | BadDecl

text \<open>
  The ways the pass stops: the two calls of \<^verbatim>\<open>log.Fatal\<close>, and a run-time panic
  (an index out of range on an empty list, a nil dereference).
\<close>

datatype error = NumberOfReturnError | UnsupportDeclearType | Panic

text \<open>\<^verbatim>\<open>(*ast.FieldList).NumFields\<close>: a field with no name counts once.\<close>

fun NumFields :: "Field list \<Rightarrow> nat" where
  "NumFields [] = 0"
| "NumFields (Field names typ # gs) =
     (if length names = 0 then 1 else length names) + NumFields gs"

text \<open>
  \<^verbatim>\<open>strconv.Unquote\<close>, whose error the emitter drops (the result is then the empty
  string), with the functions of \<^verbatim>\<open>strconv\<close> and \<^verbatim>\<open>unicode/utf8\<close> it is made
  of. A rune is a natural number and a byte a character. \<open>unhex\<close> is the value of a
  hexadecimal digit; \<open>hexval\<close> and \<open>octval\<close> are the loops of \<^verbatim>\<open>UnquoteChar\<close> over
  the digits of an escape (eight hexadecimal digits above \<^verbatim>\<open>0x7FFFFFFF\<close> make a
  negative rune in the library and a large one here: neither is a valid rune).
\<close>

definition unhex :: "char \<Rightarrow> nat option" where
  "unhex c =
     (let n = (of_char c :: nat) in
      if 48 \<le> n \<and> n \<le> 57 then Some (n - 48)
      else if 97 \<le> n \<and> n \<le> 102 then Some (n - 97 + 10)
      else if 65 \<le> n \<and> n \<le> 70 then Some (n - 65 + 10)
      else None)"

fun hexval :: "nat \<Rightarrow> string \<Rightarrow> nat option" where
  "hexval v [] = Some v"
| "hexval v (c # cs) =
     (case unhex c of None \<Rightarrow> None | Some x \<Rightarrow> hexval (16 * v + x) cs)"

fun octval :: "nat \<Rightarrow> string \<Rightarrow> nat option" where
  "octval v [] = Some v"
| "octval v (c # cs) =
     (let n = (of_char c :: nat) in
      if n < 48 \<or> 55 < n then None else octval (8 * v + (n - 48)) cs)"

definition ValidRune :: "nat \<Rightarrow> bool" where
  "ValidRune r \<longleftrightarrow> r < 0xD800 \<or> (0xDFFF < r \<and> r \<le> 0x10FFFF)"

definition RuneError :: nat where
  "RuneError = 0xFFFD"

text \<open>
  \<^verbatim>\<open>utf8.AppendRune\<close> on a valid rune, and \<^verbatim>\<open>utf8.DecodeRuneInString\<close>, which
  returns the rune at the head of the text and its width in bytes, and
  \<^verbatim>\<open>RuneError\<close> with width 1 where the text does not start with a well-formed
  encoding.
\<close>

definition EncodeRune :: "nat \<Rightarrow> string" where
  "EncodeRune r =
     (if r < 0x80 then [char_of r]
      else if r < 0x800 then [char_of (0xC0 + r div 64), char_of (0x80 + r mod 64)]
      else if r < 0x10000 then
        [char_of (0xE0 + r div 4096), char_of (0x80 + r div 64 mod 64), char_of (0x80 + r mod 64)]
      else
        [char_of (0xF0 + r div 262144), char_of (0x80 + r div 4096 mod 64),
         char_of (0x80 + r div 64 mod 64), char_of (0x80 + r mod 64)])"

fun DecodeRuneInString :: "string \<Rightarrow> nat \<times> nat" where
  "DecodeRuneInString [] = (RuneError, 0)"
| "DecodeRuneInString (c0 # cs) =
     (let b0 = (of_char c0 :: nat) in
      if b0 < 0x80 then (b0, 1)
      else if b0 < 0xC2 \<or> 0xF4 < b0 then (RuneError, 1)
      else
        (let sz = (if b0 < 0xE0 then 2 else if b0 < 0xF0 then 3 else 4 :: nat);
             lo = (if b0 = 0xE0 then 0xA0 else if b0 = 0xF0 then 0x90 else 0x80 :: nat);
             hi = (if b0 = 0xED then 0x9F else if b0 = 0xF4 then 0x8F else 0xBF :: nat)
         in
         if length cs + 1 < sz then (RuneError, 1)
         else
           (let b1 = (of_char (cs ! 0) :: nat) in
            if b1 < lo \<or> hi < b1 then (RuneError, 1)
            else if sz = 2 then ((b0 mod 32) * 64 + b1 mod 64, 2)
            else
              (let b2 = (of_char (cs ! 1) :: nat) in
               if b2 < 0x80 \<or> 0xBF < b2 then (RuneError, 1)
               else if sz = 3 then ((b0 mod 16) * 4096 + (b1 mod 64) * 64 + b2 mod 64, 3)
               else
                 (let b3 = (of_char (cs ! 2) :: nat) in
                  if b3 < 0x80 \<or> 0xBF < b3 then (RuneError, 1)
                  else ((b0 mod 8) * 262144 + (b1 mod 64) * 4096 + (b2 mod 64) * 64
                          + b3 mod 64, 4))))))"

text \<open>
  \<^verbatim>\<open>strconv.UnquoteChar\<close>: the first character or escape sequence of the text, as
  (rune, multibyte, tail), or \<open>None\<close> for its syntax error.
\<close>

fun UnquoteChar :: "string \<Rightarrow> char \<Rightarrow> (nat \<times> bool \<times> string) option" where
  "UnquoteChar [] quote = None"
| "UnquoteChar (c # s) quote =
     (if c = quote \<and> (quote = CHR 0x27 \<or> quote = CHR 0x22) then None
      else if 0x80 \<le> (of_char c :: nat) then
        (case DecodeRuneInString (c # s) of (r, sz) \<Rightarrow> Some (r, True, drop sz (c # s)))
      else if c \<noteq> CHR 0x5C then Some (of_char c, False, s)
      else
        (case s of
           [] \<Rightarrow> None
         | c' # s' \<Rightarrow>
             if c' = CHR ''a'' then Some (7, False, s')
             else if c' = CHR ''b'' then Some (8, False, s')
             else if c' = CHR ''f'' then Some (12, False, s')
             else if c' = CHR ''n'' then Some (10, False, s')
             else if c' = CHR ''r'' then Some (13, False, s')
             else if c' = CHR ''t'' then Some (9, False, s')
             else if c' = CHR ''v'' then Some (11, False, s')
             else if c' = CHR ''x'' \<or> c' = CHR ''u'' \<or> c' = CHR ''U'' then
               (let n = (if c' = CHR ''x'' then 2 else if c' = CHR ''u'' then 4 else 8) in
                if length s' < n then None
                else
                  (case hexval 0 (take n s') of
                     None \<Rightarrow> None
                   | Some v \<Rightarrow>
                       if c' = CHR ''x'' then Some (v, False, drop n s')
                       else if ValidRune v then Some (v, True, drop n s')
                       else None))
             else if 48 \<le> (of_char c' :: nat) \<and> (of_char c' :: nat) \<le> 55 then
               (if length s' < 2 then None
                else
                  (case octval (of_char c' - 48) (take 2 s') of
                     None \<Rightarrow> None
                   | Some v \<Rightarrow> if 255 < v then None else Some (v, False, drop 2 s')))
             else if c' = CHR 0x5C then Some (0x5C, False, s')
             else if c' = CHR 0x27 \<or> c' = CHR 0x22 then
               (if c' \<noteq> quote then None else Some (of_char c', False, s'))
             else None))"

text \<open>
  The loop of \<^verbatim>\<open>Unquote\<close> over the text after the opening quote of a double-quoted
  or single-quoted literal: it stops at the first quote that is not escaped, which has to
  be the last character; a line break is an error; a single-quoted literal holds one
  character. The library returns a literal without backslash that is valid UTF-8 as it
  is, without the loop, and the loop gives the same text for it.
\<close>

function unquote_loop :: "char \<Rightarrow> string \<Rightarrow> string option" where
  "unquote_loop quote [] = None"
| "unquote_loop quote (c # cs) =
     (if c = quote then (if cs = [] then Some [] else None)
      else
        (case UnquoteChar (c # cs) quote of
           None \<Rightarrow> None
         | Some (r, multibyte, rem) \<Rightarrow>
             if c = CHR ''\<newline>'' then None
             else
               (let bytes = (if r < 0x80 \<or> \<not> multibyte then [char_of r] else EncodeRune r) in
                if quote = CHR 0x27 then (if rem = [quote] then Some bytes else None)
                else
                  (case unquote_loop quote rem of
                     None \<Rightarrow> None
                   | Some out \<Rightarrow> Some (bytes @ out)))))"
  by pat_completeness auto
termination
  by (relation "measure (\<lambda>(quote, s). length s)")
     (auto simp: Let_def split: if_splits list.splits option.splits prod.splits)

text \<open>
  A raw literal (between back quotes) is its contents without the carriage returns.
\<close>

definition Unquote :: "string \<Rightarrow> string" where
  "Unquote s =
     (if length s < 2 then []
      else if hd s = CHR 0x60 then
        (if last s = CHR 0x60 \<and> CHR 0x60 \<notin> set (butlast (tl s))
         then filter (\<lambda>c. c \<noteq> CHR 0x0D) (butlast (tl s)) else [])
      else if hd s = CHR 0x22 \<or> hd s = CHR 0x27 then
        (case unquote_loop (hd s) (tl s) of None \<Rightarrow> [] | Some out \<Rightarrow> out)
      else [])"

fun field :: "Field \<Rightarrow> error + string" where
  "field (Field names typ) =
     (case typ of
        StarExpr x \<Rightarrow>
          (case names of
             [] \<Rightarrow> Inl Panic
           | name # _ \<Rightarrow> Inr (buf (P NewPrinter ''%s* %s'' [expr x, name])))
      | _ \<Rightarrow>
          (case names of
             [] \<Rightarrow> Inl Panic
           | name # _ \<Rightarrow> Inr (buf (P NewPrinter ''%s %s'' [expr typ, name]))))"

text \<open>The loop of \<^verbatim>\<open>VisitFunction\<close> that collects the parameters.\<close>

fun paraml :: "Field list \<Rightarrow> error + string list" where
  "paraml [] = Inr []"
| "paraml (f # fs) =
     (case field f of
        Inl e \<Rightarrow> Inl e
      | Inr param \<Rightarrow>
          (case paraml fs of Inl e \<Rightarrow> Inl e | Inr l \<Rightarrow> Inr (param # l)))"

text \<open>The loop of \<^verbatim>\<open>VisitSpec\<close> over the fields of a struct.\<close>

fun struct_fields :: "Printer \<Rightarrow> Field list \<Rightarrow> error + Printer" where
  "struct_fields p [] = Inr p"
| "struct_fields p (f # fs) =
     (case field f of
        Inl e \<Rightarrow> Inl e
      | Inr s \<Rightarrow> struct_fields (Pln p ''%s;'' [s]) fs)"

fun VisitSpec :: "Printer \<Rightarrow> Spec \<Rightarrow> error + Printer" where
  "VisitSpec p (ValueSpec names typ) =
     (case typ of
        ArrayType len elt \<Rightarrow>
          (case names of
             [] \<Rightarrow> Inl Panic
           | name # _ \<Rightarrow> Inr (Pln p ''%s %s[%s];'' [expr elt, name, expr len]))
      | StarExpr x \<Rightarrow>
          (case names of
             [] \<Rightarrow> Inl Panic
           | name # _ \<Rightarrow> Inr (Pln p ''%s* %s;'' [expr x, name]))
      | _ \<Rightarrow>
          (case names of
             [] \<Rightarrow> Inl Panic
           | name # _ \<Rightarrow> Inr (Pln p ''%s %s;'' [expr typ, name])))"
| "VisitSpec p (ImportSpec path) = Inr (Pln p ''#include <%s.h>'' [Unquote path])"
| "VisitSpec p (TypeSpec name typ) =
     (case typ of
        Ident tname \<Rightarrow> Inr (Pln p ''typedef %s %s;'' [tname, name])
      | StructType fl \<Rightarrow>
          (case struct_fields (Indent (Pln p ''struct %s {'' [name])) fl of
             Inl e \<Rightarrow> Inl e
           | Inr p' \<Rightarrow> Inr (Pln (Unindent p') ''};'' []))
      | _ \<Rightarrow> Inr p)"

text \<open>
  \<open>VisitStmtList\<close> is the loop of \<^verbatim>\<open>VisitBlockStmt\<close>. \<^verbatim>\<open>VisitFunction\<close>
  takes the fields of the \<^verbatim>\<open>*ast.FuncDecl\<close> it reads: name, parameters, results
  and body.
\<close>

function (sequential) VisitStmt :: "Printer \<Rightarrow> Stmt \<Rightarrow> error + Printer"
and VisitStmtList :: "Printer \<Rightarrow> Stmt list \<Rightarrow> error + Printer"
and VisitBlockStmt :: "Printer \<Rightarrow> Stmt list \<Rightarrow> error + Printer"
and VisitFunction ::
  "Printer \<Rightarrow> string \<Rightarrow> Field list \<Rightarrow> Field list \<Rightarrow> Stmt list option \<Rightarrow> error + Printer"
and VisitDecl :: "Printer \<Rightarrow> Decl \<Rightarrow> error + Printer" where
  "VisitStmt p (ExprStmt x) = Inr (Pln p ''%s;'' [expr x])"
| "VisitStmt p (AssignStmt lhs tok rhs) =
     (case lhs of
        [] \<Rightarrow> Inl Panic
      | l # _ \<Rightarrow>
          (case rhs of
             [] \<Rightarrow> Inl Panic
           | r # _ \<Rightarrow> Inr (Pln p ''%s %s %s;'' [expr l, String tok, expr r])))"
| "VisitStmt p (DeclStmt d) = VisitDecl p d"
| "VisitStmt p (ReturnStmt results) =
     (case results of
        [] \<Rightarrow> Inl Panic
      | r # _ \<Rightarrow> Inr (Pln p ''return %s;'' [expr r]))"
| "VisitStmt p (IncDecStmt x tok) = Inr (Pln (VisitExpr p x) ''%s;'' [String tok])"
| "VisitStmt p (IfStmt cond body els) =
     (case VisitBlockStmt (P (VisitExpr (Pi p ''if ('' []) cond) '') '' []) body of
        Inl e \<Rightarrow> Inl e
      | Inr p' \<Rightarrow>
          (case els of
             IfStmt cond' body' els' \<Rightarrow>
               VisitBlockStmt (Pi p' ''else if(%s) '' [expr cond']) body'
           | BlockStmt list \<Rightarrow> VisitBlockStmt (Pln p' ''else'' []) list
           | _ \<Rightarrow> Inr p'))"
| "VisitStmt p (ForStmt init cond post body) =
     (case VisitStmt NewPrinter init of
        Inl e \<Rightarrow> Inl e
      | Inr pp \<Rightarrow>
          (let init' = TrimRight (buf pp) ''\<newline>'' in
           case VisitStmt (Reset pp) post of
             Inl e \<Rightarrow> Inl e
           | Inr pp' \<Rightarrow>
               (let post' = TrimRight (buf pp') '';\<newline>'' in
                VisitBlockStmt (Pi p ''for (%s %s; %s) '' [init', expr cond, post']) body)))"
| "VisitStmt p _ = Inr p"
| "VisitStmtList p [] = Inr p"
| "VisitStmtList p (elem # rest) =
     (case VisitStmt p elem of
        Inl e \<Rightarrow> Inl e
      | Inr p' \<Rightarrow> VisitStmtList p' rest)"
| "VisitBlockStmt p list =
     (case VisitStmtList (Indent (P p ''{\<newline>'' [])) list of
        Inl e \<Rightarrow> Inl e
      | Inr p' \<Rightarrow> Inr (Pln (Unindent p') ''}'' []))"
| "VisitFunction p funcname params results body =
     (if NumFields results > 1 then Inl NumberOfReturnError
      else
        (case (if NumFields results > 0
               then (case results of
                       [] \<Rightarrow> Inl Panic
                     | Field names typ # _ \<Rightarrow> Inr (expr typ))
               else Inr ''void'') of
           Inl e \<Rightarrow> Inl e
         | Inr rettyp \<Rightarrow>
             (case (if NumFields params \<noteq> 0
                    then (case paraml params of
                            Inl e \<Rightarrow> Inl e
                          | Inr l \<Rightarrow> Inr (Join l '', ''))
                    else Inr []) of
                Inl e \<Rightarrow> Inl e
              | Inr params' \<Rightarrow>
                  (case body of
                     None \<Rightarrow> Inl Panic
                   | Some list \<Rightarrow>
                       VisitBlockStmt
                         (Pln p ''%s %s(%s)'' [rettyp, funcname, params']) list))))"
| "VisitDecl p (FuncDecl funcname params results body) =
     VisitFunction p funcname params results body"
| "VisitDecl p (GenDecl specs) =
     (case specs of
        [] \<Rightarrow> Inl Panic
      | s # _ \<Rightarrow> VisitSpec p s)"
| "VisitDecl p BadDecl = Inl UnsupportDeclearType"
  by pat_completeness auto
termination
  by (relation "measure (\<lambda>c. case c of
          Inl (Inl (p, s)) \<Rightarrow> 2 * size s
        | Inl (Inr (p, l)) \<Rightarrow> 2 * size_list size l
        | Inr (Inl (p, l)) \<Rightarrow> 2 * size_list size l + 1
        | Inr (Inr (Inl (p, n, ps, rs, b))) \<Rightarrow> 2 * size_option (size_list size) b + 1
        | Inr (Inr (Inr (p, d))) \<Rightarrow> 2 * size d)")
     auto

text \<open>The loop of \<^verbatim>\<open>VisitFile\<close> over the declarations of the file.\<close>

fun VisitFile :: "Printer \<Rightarrow> Decl list \<Rightarrow> error + Printer" where
  "VisitFile p [] = Inr p"
| "VisitFile p (decl # decls) =
     (case VisitDecl p decl of
        Inl e \<Rightarrow> Inl e
      | Inr p' \<Rightarrow> VisitFile p' decls)"

section \<open>The earlier expression emitter\<close>

text \<open>
  \<^verbatim>\<open>src/unnamed/part_000\<close> holds a smaller \<^verbatim>\<open>VisitExpr\<close> with the same printer: its
  type switch has the cases literal, identifier, selector, binary expression and call
  only, and a call renders each argument into a scratch printer of its own.
\<close>

function (sequential) VisitBinExpr_min :: "Printer \<Rightarrow> Expr \<Rightarrow> token \<Rightarrow> Expr \<Rightarrow> Printer"
and VisitExpr_min :: "Printer \<Rightarrow> Expr \<Rightarrow> Printer" where
  "VisitBinExpr_min p x op y = VisitExpr_min (P (VisitExpr_min p x) (String op) []) y"
| "VisitExpr_min p (BasicLit v) = P p ''%s'' [v]"
| "VisitExpr_min p (Ident name) = P p name []"
| "VisitExpr_min p (SelectorExpr x sel) = P (VisitExpr_min p x) ''.%s'' [sel]"
| "VisitExpr_min p (BinaryExpr x op y) = P (VisitBinExpr_min (P p ''('' []) x op y) '')'' []"
| "VisitExpr_min p (CallExpr f args) =
     P (VisitExpr_min p f) ''(%s)''
       [Join (map (\<lambda>arg. buf (VisitExpr_min NewPrinter arg)) args) '', '']"
| "VisitExpr_min p _ = p"
  by pat_completeness auto
termination
  by (relation "measure (\<lambda>c. case c of
          Inl (p, x, op, y) \<Rightarrow> 2 * (size x + size y) + 1
        | Inr (p, n) \<Rightarrow> 2 * size n)")
     (auto simp: less_Suc_eq_le dest: size_list_estimation' [where f = size and y = "size x" for x, OF _ order_refl])

section \<open>Predicates the properties are stated with\<close>

text \<open>
  The node kinds the type switch of \<^verbatim>\<open>VisitExpr\<close> has a case for (\<open>recognized\<close>, the
  eight cases of \<^verbatim>\<open>src/main.go\<close>; \<open>recognized_min\<close>, the five of the earlier emitter).
\<close>

fun recognized :: "Expr \<Rightarrow> bool" where
  "recognized (BasicLit v) = True"
| "recognized (Ident name) = True"
| "recognized (SelectorExpr x sel) = True"
| "recognized (BinaryExpr x op y) = True"
| "recognized (UnaryExpr op x) = True"
| "recognized (StarExpr x) = True"
| "recognized (IndexExpr x i) = True"
| "recognized (CallExpr f args) = True"
| "recognized _ = False"

fun recognized_min :: "Expr \<Rightarrow> bool" where
  "recognized_min (BasicLit v) = True"
| "recognized_min (Ident name) = True"
| "recognized_min (SelectorExpr x sel) = True"
| "recognized_min (BinaryExpr x op y) = True"
| "recognized_min (CallExpr f args) = True"
| "recognized_min _ = False"

text \<open>
  \<open>appended p p'\<close>: the printer \<open>p'\<close> has the depth of \<open>p\<close>, and its text starts with the
  text of \<open>p\<close>. \<open>prepend b p\<close>: the printer \<open>p\<close> with the text \<open>b\<close> put before its own.
\<close>

definition appended :: "Printer \<Rightarrow> Printer \<Rightarrow> bool" where
  "appended p p' \<longleftrightarrow> indent p' = indent p \<and> prefix (buf p) (buf p')"

definition prepend :: "string \<Rightarrow> Printer \<Rightarrow> Printer" where
  "prepend b p = p\<lparr>buf := b @ buf p\<rparr>"

section \<open>What the expression emitter writes\<close>

text \<open>
  \<open>expr\<close> and \<open>VisitExpr\<close> are defined through each other; the equation of \<open>expr\<close> is
  applied by hand below, so that it does not unfold under the simplifier.
\<close>

declare expr.simps [simp del]

lemmas printer_defs =
  P_def Pi_def Pln_def NewPrinter_def Reset_def Indent_def Unindent_def Let_def

text \<open>
  \<open>VisitExpr\<close> only appends to the buffer, and what it appends is the fragment \<open>expr\<close>
  returns: it reads neither the text already written nor the indentation depth.
\<close>

lemma VisitExpr_append_all:
  "(\<forall>p. VisitExpr p e = p\<lparr>buf := buf p @ expr e\<rparr>)" and "(f::Field) = f"
  apply (induction e and f)
  apply (subst expr.simps, simp add: P_def NewPrinter_def)+
  apply simp
  done

lemma VisitExpr_append: "VisitExpr p e = p\<lparr>buf := buf p @ expr e\<rparr>"
  using VisitExpr_append_all(1) by blast

lemma expr_eqs:
  "expr (BasicLit v) = v"
  "expr (Ident name) = Sprintf name []"
  "expr (SelectorExpr x sel) = expr x @ ''.'' @ sel"
  "expr (BinaryExpr x op y) = ''('' @ expr x @ Sprintf (String op) [] @ expr y @ '')''"
  "expr (UnaryExpr op x) = Sprintf (String op) [] @ expr x"
  "expr (StarExpr x) = ''*'' @ expr x"
  "expr (IndexExpr x i) = expr x @ ''['' @ expr i @ '']''"
  "expr (CallExpr f args) = expr f @ ''('' @ Join (map expr args) '', '' @ '')''"
  "expr (ParenExpr x) = []"
  "expr (ArrayType len elt) = []"
  "expr (StructType fl) = []"
  "expr OtherExpr = []"
  "expr NilExpr = []"
  by (subst expr.simps, simp only: VisitExpr.simps VisitBinExpr.simps,
      simp add: VisitExpr_append P_def NewPrinter_def)+

section \<open>The for statement\<close>

text \<open>
  Claim C1, as the code has it. When the init statement renders to the scratch printer
  \<open>pi\<close> and the post statement to \<open>pq\<close>, the for statement writes the indentation, then
  \<^verbatim>\<open>for (<init> <cond>; <post>) \<close> where \<open><init>\<close> is the init text without its trailing
  line breaks (its \<^verbatim>\<open>;\<close> stays) and \<open><post>\<close> is the post text without its trailing
  \<^verbatim>\<open>;\<close> and line breaks, then the braced body. For init \<^verbatim>\<open>i := 0\<close>, condition
  \<^verbatim>\<open>i < n\<close> and post \<^verbatim>\<open>i++\<close> the header is \<^verbatim>\<open>for (i := 0; (i<n); i++) \<close>.
\<close>

theorem For_header:
  "(VisitStmt NewPrinter init = Inr pi \<longrightarrow> VisitStmt (Reset pi) post = Inr pq \<longrightarrow>
     VisitStmt p (ForStmt init cond post body) =
       VisitBlockStmt (p\<lparr>buf := buf p @ concat (replicate (indent p) ''    '')
          @ ''for ('' @ TrimRight (buf pi) ''\<newline>'' @ '' '' @ expr cond @ ''; ''
          @ TrimRight (buf pq) '';\<newline>'' @ '') ''\<rparr>) body)
   \<and> VisitStmt p (ForStmt (AssignStmt [Ident ''i''] DEFINE [BasicLit ''0''])
               (BinaryExpr (Ident ''i'') LSS (Ident ''n''))
               (IncDecStmt (Ident ''i'') INC) body) =
       VisitBlockStmt (p\<lparr>buf := buf p @ concat (replicate (indent p) ''    '')
          @ ''for (i := 0; (i<n); i++) ''\<rparr>) body"
  by (simp add: printer_defs expr_eqs TrimRight_def del: VisitBlockStmt.simps)

theorem For_header_witness:
  "VisitStmt NewPrinter (AssignStmt [Ident ''i''] DEFINE [BasicLit ''0'']) =
     Inr \<lparr>buf = ''i := 0;\<newline>'', indent = 0\<rparr>
   \<and> VisitStmt (Reset \<lparr>buf = ''i := 0;\<newline>'', indent = 0\<rparr>) (IncDecStmt (Ident ''i'') INC) =
     Inr \<lparr>buf = ''i++;\<newline>'', indent = 0\<rparr>
   \<and> VisitStmt \<lparr>buf = [], indent = 1\<rparr>
       (ForStmt (AssignStmt [Ident ''i''] DEFINE [BasicLit ''0''])
                (BinaryExpr (Ident ''i'') LSS (Ident ''n''))
                (IncDecStmt (Ident ''i'') INC) []) =
     Inr \<lparr>buf = ''    for (i := 0; (i<n); i++) {\<newline>    }\<newline>'', indent = 1\<rparr>"
  using For_header [of "AssignStmt [Ident ''i''] DEFINE [BasicLit ''0'']"
      "\<lparr>buf = ''i := 0;\<newline>'', indent = 0\<rparr>" "IncDecStmt (Ident ''i'') INC"
      "\<lparr>buf = ''i++;\<newline>'', indent = 0\<rparr>" "\<lparr>buf = [], indent = 1\<rparr>"
      "BinaryExpr (Ident ''i'') LSS (Ident ''n'')" "[]"]
  by (simp add: printer_defs expr_eqs TrimRight_def)

text \<open>
  The header of that statement does not start with \<^verbatim>\<open>for (i := 0 (i)<(n); i++)\<close>, the
  text the specification gives for it.
\<close>

theorem For_header_spec_literal_counterexample:
  "(case VisitStmt NewPrinter
      (ForStmt (AssignStmt [Ident ''i''] DEFINE [BasicLit ''0''])
               (BinaryExpr (Ident ''i'') LSS (Ident ''n''))
               (IncDecStmt (Ident ''i'') INC) []) of
       Inl e \<Rightarrow> [] | Inr p' \<Rightarrow> take 25 (buf p'))
     \<noteq> ''for (i := 0 (i)<(n); i++)''"
  by (simp add: printer_defs expr_eqs TrimRight_def)

section \<open>Multi-value forms\<close>



section \<open>Increment and decrement\<close>

text \<open>
  Claim C3 fails on the code. At depth 1 the statement \<^verbatim>\<open>i++\<close> is written as the
  operand, then the indentation, then the operator: \<^verbatim>\<open>VisitStmt\<close> writes the operand
  straight into the buffer and only then calls \<^verbatim>\<open>Pln\<close>, which indents.
\<close>

theorem IncDecStmt_indentation_after_operand:
  "VisitStmt \<lparr>buf = [], indent = 1\<rparr> (IncDecStmt (Ident ''i'') INC) =
   Inr \<lparr>buf = ''i    ++;\<newline>'', indent = 1\<rparr>"
  by (simp add: printer_defs)

lemma IncDecStmt_text:
  "VisitStmt p (IncDecStmt x tok) =
     Inr (p\<lparr>buf := buf p @ expr x @ concat (replicate (indent p) ''    '')
            @ String tok @ '';\<newline>''\<rparr>)"
  by (simp add: printer_defs VisitExpr_append)

section \<open>Binary expressions\<close>

text \<open>
  Claim C5 fails on the code for the remainder operator. \<^verbatim>\<open>VisitBinExpr\<close> passes
  the operator's text to \<^verbatim>\<open>P\<close> as the format, and the format \<^verbatim>\<open>%\<close> is an
  incomplete directive: \<^verbatim>\<open>a % b\<close> renders as \<^verbatim>\<open>(a%!(NOVERB)b)\<close>.
\<close>

theorem BinaryExpr_REM_text:
  "expr (BinaryExpr (Ident ''a'') REM (Ident ''b'')) = ''(a%!(NOVERB)b)''"
  by (simp add: expr_eqs)

text \<open>For every operator whose text has no percent sign the claim holds.\<close>

lemma Sprintf_no_percent: "CHR ''%'' \<notin> set f \<Longrightarrow> Sprintf f [] = f"
  by (induction f) auto

lemma BinaryExpr_text:
  "op \<noteq> REM \<Longrightarrow> op \<noteq> REM_ASSIGN \<Longrightarrow>
   expr (BinaryExpr x op y) = ''('' @ expr x @ String op @ expr y @ '')''"
  by (cases op) (simp_all add: expr_eqs)

section \<open>Grouped declarations, else-if chains\<close>

text \<open>
  Claim C9. A general declaration is emitted as its first spec alone: the result is the
  same whatever specs follow the first.
\<close>

theorem GenDecl_first_spec_only:
  "VisitDecl p (GenDecl (s # rest)) = VisitSpec p s
   \<and> VisitDecl p (GenDecl (s # rest)) = VisitDecl p (GenDecl [s])"
  by simp

text \<open>
  Claim C10. When the else branch of an if statement is itself an if statement, the
  emitter writes the \<^verbatim>\<open>else if\<close> header and the block of the inner statement, and
  nothing of the inner statement's own else branch: the result is the same as without it.
\<close>

theorem else_if_drops_inner_else:
  "VisitStmt p (IfStmt cond body (IfStmt cond' body' els')) =
     (case VisitBlockStmt (P (VisitExpr (Pi p ''if ('' []) cond) '') '' []) body of
        Inl e \<Rightarrow> Inl e
      | Inr p' \<Rightarrow> VisitBlockStmt (Pi p' ''else if(%s) '' [expr cond']) body')
   \<and> VisitStmt p (IfStmt cond body (IfStmt cond' body' els')) =
     VisitStmt p (IfStmt cond body (IfStmt cond' body' NilStmt))"
  by (simp split: sum.splits del: VisitBlockStmt.simps)

section \<open>Emission only appends, at an unchanged depth\<close>

lemma appended_refl [simp]: "appended p p"
  by (simp add: appended_def)

lemma appended_trans: "appended p q \<Longrightarrow> appended q r \<Longrightarrow> appended p r"
  by (auto simp: appended_def)

lemma appended_P [simp]: "appended p (P p f l)"
  and appended_Pi [simp]: "appended p (Pi p f l)"
  and appended_Pln [simp]: "appended p (Pln p f l)"
  by (simp_all add: appended_def printer_defs)

lemma appended_P_D: "appended (P q f l) r \<Longrightarrow> appended q r"
  and appended_Pi_D: "appended (Pi q f l) r \<Longrightarrow> appended q r"
  and appended_Pln_D: "appended (Pln q f l) r \<Longrightarrow> appended q r"
  and appended_VisitExpr_D: "appended (VisitExpr q e) r \<Longrightarrow> appended q r"
  by (auto simp: appended_def printer_defs VisitExpr_append prefix_def)

lemmas appended_D = appended_P_D appended_Pi_D appended_Pln_D appended_VisitExpr_D

lemma appended_block:
  "appended (Indent (P p f l)) q \<Longrightarrow> appended p (Pln (Unindent q) g m)"
  by (auto simp: appended_def printer_defs prefix_def)

lemma struct_fields_appended:
  "struct_fields p fl = Inr p' \<Longrightarrow> appended p p'"
proof (induction fl arbitrary: p)
  case Nil
  then show ?case by simp
next
  case (Cons f fl)
  then show ?case
    by (auto split: sum.splits dest!: Cons.IH appended_Pln_D)
qed

lemma VisitSpec_appended: "VisitSpec p sp = Inr p' \<Longrightarrow> appended p p'"
  by (cases sp)
    (auto split: Expr.splits list.splits sum.splits dest!: struct_fields_appended
       simp: appended_def printer_defs prefix_def)

lemma Visit_appended:
  "\<forall>p'. VisitStmt p s = Inr p' \<longrightarrow> appended p p'"
  "\<forall>p'. VisitStmtList p ss = Inr p' \<longrightarrow> appended p p'"
  "\<forall>p'. VisitBlockStmt p list = Inr p' \<longrightarrow> appended p p'"
  "\<forall>p'. VisitFunction p funcname params results body = Inr p' \<longrightarrow> appended p p'"
  "\<forall>p'. VisitDecl p d = Inr p' \<longrightarrow> appended p p'"
proof (induct p s and p ss and p list and p funcname params results body and p d
    rule: VisitStmt_VisitStmtList_VisitBlockStmt_VisitFunction_VisitDecl.induct)
  case (6 p cond body els)
  show ?case
  proof (intro allI impI)
    fix p' assume A: "VisitStmt p (IfStmt cond body els) = Inr p'"
    let ?q = "P (VisitExpr (Pi p ''if ('' []) cond) '') '' []"
    from A obtain b where B: "VisitBlockStmt ?q body = Inr b"
      by (auto split: sum.splits simp del: VisitBlockStmt.simps)
    with A have C: "(case els of
             IfStmt cond' body' els' \<Rightarrow>
               VisitBlockStmt (Pi b ''else if(%s) '' [expr cond']) body'
           | BlockStmt list \<Rightarrow> VisitBlockStmt (Pln b ''else'' []) list
           | _ \<Rightarrow> Inr b) = Inr p'"
      by (simp del: VisitBlockStmt.simps)
    have 1: "appended p b"
      using 6(1) B by (blast dest: appended_D)
    have 2: "appended b p'"
      using C 6(2) [OF B] 6(3) [OF B]
      by (cases els) (auto simp del: VisitBlockStmt.simps dest: appended_D)
    show "appended p p'" using 1 2 by (rule appended_trans)
  qed
next
  case (7 p init cond post body)
  show ?case
  proof (intro allI impI)
    fix p' assume A: "VisitStmt p (ForStmt init cond post body) = Inr p'"
    from A obtain pi where B: "VisitStmt NewPrinter init = Inr pi"
      by (auto split: sum.splits simp del: VisitBlockStmt.simps)
    with A obtain pq where C: "VisitStmt (Reset pi) post = Inr pq"
      by (auto split: sum.splits simp: Let_def simp del: VisitBlockStmt.simps)
    with A B have D: "VisitBlockStmt (Pi p ''for (%s %s; %s) ''
        [TrimRight (buf pi) ''\<newline>'', expr cond, TrimRight (buf pq) '';\<newline>'']) body = Inr p'"
      by (simp add: Let_def del: VisitBlockStmt.simps)
    show "appended p p'"
      using 7(3) [OF B refl C refl] D by (blast dest: appended_D)
  qed
next
  case (10 p elem rest)
  then show ?case by (auto split: sum.splits intro: appended_trans)
next
  case (11 p list)
  then show ?case by (auto split: sum.splits intro: appended_block)
next
  case (12 p funcname params results body)
  show ?case
  proof (intro allI impI)
    fix p' assume A: "VisitFunction p funcname params results body = Inr p'"
    let ?R = "if NumFields results > 0
               then (case results of
                       [] \<Rightarrow> Inl Panic
                     | Field names typ # _ \<Rightarrow> Inr (expr typ))
               else Inr ''void''"
    let ?Ps = "if NumFields params \<noteq> 0
                    then (case paraml params of
                            Inl e \<Rightarrow> Inl e
                          | Inr l \<Rightarrow> Inr (Join l '', ''))
                    else Inr []"
    from A have N: "\<not> 1 < NumFields results"
      by (auto split: if_splits simp del: VisitBlockStmt.simps)
    from A N obtain rettyp where R: "?R = Inr rettyp"
      by (cases ?R) (simp_all del: VisitBlockStmt.simps)
    from A N R obtain ps where Ps: "?Ps = Inr ps"
      by (cases ?Ps) (simp_all del: VisitBlockStmt.simps)
    from A N R Ps obtain list where L: "body = Some list"
      by (cases body) (simp_all del: VisitBlockStmt.simps)
    from A N R Ps L
    have D: "VisitBlockStmt (Pln p ''%s %s(%s)'' [rettyp, funcname, ps]) list = Inr p'"
      by (simp del: VisitBlockStmt.simps)
    show "appended p p'"
      using 12 [OF N R Ps L] D by (blast dest: appended_D)
  qed
next
  case (14 p specs)
  then show ?case by (auto split: list.splits dest: VisitSpec_appended)
qed (auto split: list.splits simp: VisitExpr_append appended_def printer_defs)

lemma VisitFile_appended: "VisitFile p decls = Inr p' \<Longrightarrow> appended p p'"
proof (induction decls arbitrary: p)
  case Nil
  then show ?case by simp
next
  case (Cons d decls)
  then show ?case
    by (auto split: sum.splits dest!: Visit_appended(5) [rule_format] intro: appended_trans)
qed

section \<open>Expressions without a case\<close>

text \<open>
  Claim C6. For an expression node the type switch of \<^verbatim>\<open>VisitExpr\<close> has no case for,
  the emitter returns the printer as it was given and the fragment \<open>expr\<close> returns is
  empty; no failure is possible, since the emitter returns a printer and not a result.
  The same holds for the earlier emitter with its five cases.
\<close>

theorem unrecognized_expr_empty:
  "(\<not> recognized e \<longrightarrow> VisitExpr p e = p \<and> expr e = [])
   \<and> (\<not> recognized_min e \<longrightarrow> VisitExpr_min p e = p)"
  by (cases e) (simp_all add: expr_eqs)

theorem unrecognized_expr_empty_witness:
  "\<not> recognized (ParenExpr (BinaryExpr (Ident ''a'') ADD (Ident ''b'')))
   \<and> VisitExpr \<lparr>buf = ''x = '', indent = 2\<rparr> (ParenExpr (BinaryExpr (Ident ''a'') ADD (Ident ''b'')))
       = \<lparr>buf = ''x = '', indent = 2\<rparr>
   \<and> expr (BinaryExpr (ParenExpr (BinaryExpr (Ident ''a'') ADD (Ident ''b''))) MUL (Ident ''c''))
       = ''(*c)''
   \<and> \<not> recognized_min (ParenExpr (BinaryExpr (Ident ''a'') ADD (Ident ''b'')))
   \<and> VisitExpr_min \<lparr>buf = ''x = '', indent = 2\<rparr>
        (ParenExpr (BinaryExpr (Ident ''a'') ADD (Ident ''b''))) = \<lparr>buf = ''x = '', indent = 2\<rparr>"
  using unrecognized_expr_empty [of "ParenExpr (BinaryExpr (Ident ''a'') ADD (Ident ''b''))"
      "\<lparr>buf = ''x = '', indent = 2\<rparr>"]
  by (simp add: expr_eqs)

section \<open>The results of a function\<close>

lemma NumFields_0: "NumFields fl = 0 \<Longrightarrow> fl = []"
  by (cases fl rule: NumFields.cases) (auto split: if_splits)

text \<open>
  Claim C4. A function declaration with two or more results stops the pass with the
  error of \<^verbatim>\<open>log.Fatal("number of return error")\<close>, whatever its parameters and body
  are, and so does a file that holds it as its first declaration. With no result the
  header line is \<^verbatim>\<open>void <name>(<parameters>)\<close>; with exactly one result it is
  \<^verbatim>\<open><type> <name>(<parameters>)\<close>, where \<open><type>\<close> is the rendered type expression of
  the result.
\<close>

theorem VisitFunction_results:
  "(1 < NumFields results \<longrightarrow>
      VisitFunction p funcname params results body = Inl NumberOfReturnError
      \<and> VisitFile p (FuncDecl funcname params results body # decls) = Inl NumberOfReturnError)
   \<and> (NumFields results = 0 \<longrightarrow> paraml params = Inr l \<longrightarrow>
      VisitFunction p funcname params results (Some list) =
        VisitBlockStmt (p\<lparr>buf := buf p @ concat (replicate (indent p) ''    '')
           @ ''void'' @ '' '' @ funcname @ ''('' @ Join l '', '' @ '')'' @ ''\<newline>''\<rparr>) list)
   \<and> (NumFields results = 1 \<longrightarrow> results = Field names ty # rest \<longrightarrow> paraml params = Inr l \<longrightarrow>
      VisitFunction p funcname params results (Some list) =
        VisitBlockStmt (p\<lparr>buf := buf p @ concat (replicate (indent p) ''    '')
           @ expr ty @ '' '' @ funcname @ ''('' @ Join l '', '' @ '')'' @ ''\<newline>''\<rparr>) list)"
  by (auto simp add: printer_defs simp del: VisitBlockStmt.simps dest!: NumFields_0)

theorem VisitFunction_results_witness:
  "1 < NumFields [Field [] (Ident ''int''), Field [] (Ident ''error'')]
   \<and> VisitFunction NewPrinter ''f'' [] [Field [] (Ident ''int''), Field [] (Ident ''error'')]
        (Some []) = Inl NumberOfReturnError
   \<and> VisitFile NewPrinter
        [FuncDecl ''f'' [] [Field [] (Ident ''int''), Field [] (Ident ''error'')] (Some [])]
        = Inl NumberOfReturnError
   \<and> NumFields [] = 0
   \<and> paraml [Field [''a''] (Ident ''int''), Field [''b''] (Ident ''int'')] =
        Inr [''int a'', ''int b'']
   \<and> VisitFunction NewPrinter ''g'' [Field [''a''] (Ident ''int''), Field [''b''] (Ident ''int'')]
        [] (Some []) = Inr \<lparr>buf = ''void g(int a, int b)\<newline>{\<newline>}\<newline>'', indent = 0\<rparr>
   \<and> NumFields [Field [] (Ident ''int'')] = 1
   \<and> VisitFunction NewPrinter ''Add'' [Field [''a''] (Ident ''int''), Field [''b''] (Ident ''int'')]
        [Field [] (Ident ''int'')] (Some []) =
      Inr \<lparr>buf = ''int Add(int a, int b)\<newline>{\<newline>}\<newline>'', indent = 0\<rparr>"
  using VisitFunction_results [of "[Field [] (Ident ''int''), Field [] (Ident ''error'')]"
          NewPrinter "''f''" "[]" "Some []" "[]"]
    VisitFunction_results [of "[]" NewPrinter "''g''"
          "[Field [''a''] (Ident ''int''), Field [''b''] (Ident ''int'')]"]
    VisitFunction_results [of "[Field [] (Ident ''int'')]" NewPrinter "''Add''"
          "[Field [''a''] (Ident ''int''), Field [''b''] (Ident ''int'')]"]
  by (simp add: printer_defs expr_eqs)

section \<open>Determinism\<close>

lemma prepend_commute [simp]:
  "P (prepend b p) f l = prepend b (P p f l)"
  "Pi (prepend b p) f l = prepend b (Pi p f l)"
  "Pln (prepend b p) f l = prepend b (Pln p f l)"
  "Indent (prepend b p) = prepend b (Indent p)"
  "Unindent (prepend b p) = prepend b (Unindent p)"
  "VisitExpr (prepend b p) e = prepend b (VisitExpr p e)"
  by (simp_all add: prepend_def printer_defs VisitExpr_append)

lemma struct_fields_prepend:
  "struct_fields (prepend b p) fl = map_sum id (prepend b) (struct_fields p fl)"
  by (induction fl arbitrary: p) (auto split: sum.splits)

lemma VisitSpec_prepend:
  "VisitSpec (prepend b p) sp = map_sum id (prepend b) (VisitSpec p sp)"
  by (cases sp)
    (auto split: Expr.splits list.splits sum.splits simp: struct_fields_prepend)

lemma Visit_prepend:
  "\<forall>b. VisitStmt (prepend b p) s = map_sum id (prepend b) (VisitStmt p s)"
  "\<forall>b. VisitStmtList (prepend b p) ss = map_sum id (prepend b) (VisitStmtList p ss)"
  "\<forall>b. VisitBlockStmt (prepend b p) list = map_sum id (prepend b) (VisitBlockStmt p list)"
  "\<forall>b. VisitFunction (prepend b p) funcname params results body =
         map_sum id (prepend b) (VisitFunction p funcname params results body)"
  "\<forall>b. VisitDecl (prepend b p) d = map_sum id (prepend b) (VisitDecl p d)"
proof (induct p s and p ss and p list and p funcname params results body and p d
    rule: VisitStmt_VisitStmtList_VisitBlockStmt_VisitFunction_VisitDecl.induct)
  case (6 p cond body els)
  then show ?case
    by (auto simp del: VisitBlockStmt.simps split: sum.splits Stmt.splits)
next
  case (7 p init cond post body)
  then show ?case
    by (auto simp del: VisitBlockStmt.simps simp: Let_def split: sum.splits)
next
  case (10 p elem rest)
  then show ?case by (auto split: sum.splits)
next
  case (11 p list)
  then show ?case by (auto split: sum.splits)
next
  case (12 p funcname params results body)
  then show ?case
    by (auto simp del: VisitBlockStmt.simps
        split: if_splits sum.splits option.splits list.splits Field.splits)
next
  case (14 p specs)
  then show ?case by (auto split: list.splits simp: VisitSpec_prepend id_def)
qed (auto split: list.splits)

lemma VisitFile_prepend:
  "VisitFile (prepend b p) decls = map_sum id (prepend b) (VisitFile p decls)"
  by (induction decls arbitrary: p) (auto split: sum.splits simp: Visit_prepend(5))

lemma fresh_prepend: "NewPrinter\<lparr>buf := b\<rparr> = prepend b NewPrinter"
  by (simp add: prepend_def NewPrinter_def)

lemma depth0_prepend: "indent q = 0 \<Longrightarrow> q = prepend (buf q) NewPrinter"
  by (cases q) (simp add: prepend_def NewPrinter_def)

lemma VisitFile_twice:
  assumes "VisitFile NewPrinter decls = Inr p1"
  shows "VisitFile p1 decls = Inr (p1\<lparr>buf := buf p1 @ buf p1\<rparr>)"
proof -
  have "indent p1 = 0"
    using VisitFile_appended [OF assms] by (simp add: appended_def NewPrinter_def)
  then have "p1 = prepend (buf p1) NewPrinter"
    by (rule depth0_prepend)
  then have "VisitFile p1 decls = VisitFile (prepend (buf p1) NewPrinter) decls"
    by (rule arg_cong)
  also have "\<dots> = map_sum id (prepend (buf p1)) (Inr p1)"
    by (simp only: VisitFile_prepend assms)
  finally show ?thesis by (simp add: prepend_def)
qed

text \<open>
  Claim C8. The emitter is a function of the printer and the tree: two runs on the same
  declarations from a fresh printer have the same result, text or failure. The result
  does not depend on what the buffer holds either: a run on a printer that already holds
  the text \<open>b\<close> fails with the same error, or appends to \<open>b\<close> the very text the run
  from the fresh printer writes; so a second run on the printer the first run has
  returned writes the same text a second time.
\<close>

theorem emission_deterministic:
  "(VisitFile NewPrinter decls = r1 \<longrightarrow> VisitFile NewPrinter decls = r2 \<longrightarrow> r1 = r2)
   \<and> (VisitFile NewPrinter decls = Inr p1 \<longrightarrow>
        VisitFile p1 decls = Inr (p1\<lparr>buf := buf p1 @ buf p1\<rparr>))
   \<and> (VisitFile NewPrinter decls = Inl err \<longrightarrow>
        VisitFile (NewPrinter\<lparr>buf := b\<rparr>) decls = Inl err)
   \<and> (VisitFile NewPrinter decls = Inr p1 \<longrightarrow>
        VisitFile (NewPrinter\<lparr>buf := b\<rparr>) decls = Inr (p1\<lparr>buf := b @ buf p1\<rparr>))"
proof -
  have "VisitFile (NewPrinter\<lparr>buf := b\<rparr>) decls =
      map_sum id (prepend b) (VisitFile NewPrinter decls)"
    by (simp only: fresh_prepend VisitFile_prepend)
  then have "VisitFile NewPrinter decls = Inl err \<longrightarrow>
        VisitFile (NewPrinter\<lparr>buf := b\<rparr>) decls = Inl err"
    and "VisitFile NewPrinter decls = Inr p1 \<longrightarrow>
        VisitFile (NewPrinter\<lparr>buf := b\<rparr>) decls = Inr (p1\<lparr>buf := b @ buf p1\<rparr>)"
    by (simp_all add: prepend_def)
  then show ?thesis
    using VisitFile_twice by blast
qed

theorem emission_deterministic_witness:
  "VisitFile NewPrinter
      [FuncDecl ''Add'' [Field [''a''] (Ident ''int''), Field [''b''] (Ident ''int'')]
         [Field [] (Ident ''int'')]
         (Some [ReturnStmt [BinaryExpr (Ident ''a'') ADD (Ident ''b'')]])] =
     Inr \<lparr>buf = ''int Add(int a, int b)\<newline>{\<newline>    return (a+b);\<newline>}\<newline>'', indent = 0\<rparr>
   \<and> VisitFile \<lparr>buf = ''int Add(int a, int b)\<newline>{\<newline>    return (a+b);\<newline>}\<newline>'', indent = 0\<rparr>
      [FuncDecl ''Add'' [Field [''a''] (Ident ''int''), Field [''b''] (Ident ''int'')]
         [Field [] (Ident ''int'')]
         (Some [ReturnStmt [BinaryExpr (Ident ''a'') ADD (Ident ''b'')]])] =
     Inr \<lparr>buf = ''int Add(int a, int b)\<newline>{\<newline>    return (a+b);\<newline>}\<newline>''
              @ ''int Add(int a, int b)\<newline>{\<newline>    return (a+b);\<newline>}\<newline>'', indent = 0\<rparr>
   \<and> VisitFile NewPrinter [BadDecl] = Inl UnsupportDeclearType
   \<and> VisitFile (NewPrinter\<lparr>buf := ''// x''\<rparr>) [BadDecl] = Inl UnsupportDeclearType"
  using emission_deterministic [of
      "[FuncDecl ''Add'' [Field [''a''] (Ident ''int''), Field [''b''] (Ident ''int'')]
         [Field [] (Ident ''int'')]
         (Some [ReturnStmt [BinaryExpr (Ident ''a'') ADD (Ident ''b'')]])]"
      "Inr \<lparr>buf = ''int Add(int a, int b)\<newline>{\<newline>    return (a+b);\<newline>}\<newline>'', indent = 0\<rparr>"
      "Inr \<lparr>buf = ''int Add(int a, int b)\<newline>{\<newline>    return (a+b);\<newline>}\<newline>'', indent = 0\<rparr>"
      "\<lparr>buf = ''int Add(int a, int b)\<newline>{\<newline>    return (a+b);\<newline>}\<newline>'', indent = 0\<rparr>"]
    emission_deterministic [of "[BadDecl]" "Inl UnsupportDeclearType" "Inl UnsupportDeclearType"
      _ UnsupportDeclearType "''// x''"]
  by (simp add: printer_defs expr_eqs)

section \<open>Braces and depth\<close>

















section \<open>The import path\<close>

text \<open>
  The include line of an import: the path without its quotes, with the escape sequences
  of the literal decoded.
\<close>

lemma Unquote_examples:
  "Unquote (CHR 0x22 # ''os'' @ [CHR 0x22]) = ''os''"
  "Unquote (CHR 0x22 # CHR 0x5C # ''x66mt'' @ [CHR 0x22]) = ''fmt''"
  "Unquote (CHR 0x60 # ''os'' @ [CHR 0x60]) = ''os''"
  "Unquote ''os'' = []"
  by code_simp+

lemma import_include_line:
  "VisitFile NewPrinter [GenDecl [ImportSpec (CHR 0x22 # ''os'' @ [CHR 0x22])]] =
     Inr \<lparr>buf = ''#include <os.h>\<newline>'', indent = 0\<rparr>"
  by code_simp

end
